theory Spec2Isabelle
  imports Complex_Main "HOL-Library.Product_Lexorder"
begin

section \<open>Python strings\<close>

text \<open>
  A Python \<open>str\<close> is modelled as a \<open>string\<close>: a list of characters with code points
  below 256. The predicates below follow Python on that range: \<open>str.isspace\<close> holds for
  the code points 9 to 13, 28 to 32, 133 and 160; \<open>str.isdigit\<close> holds for the ASCII
  digits and the superscripts 178, 179 and 185.
\<close>

definition whitespace_chars :: "char list" where
  "whitespace_chars =
     [CHR 0x09, CHR 0x0A, CHR 0x0B, CHR 0x0C, CHR 0x0D, CHR 0x1C, CHR 0x1D, CHR 0x1E,
      CHR 0x1F, CHR 0x20, CHR 0x85, CHR 0xA0]"

definition is_space :: "char \<Rightarrow> bool" where
  "is_space c = (c \<in> set whitespace_chars)"

definition ascii_digits :: "char list" where
  "ascii_digits = ''0123456789''"

definition is_ascii_digit :: "char \<Rightarrow> bool" where
  "is_ascii_digit c = (c \<in> set ascii_digits)"

definition py_lstrip :: "string \<Rightarrow> string" where
  "py_lstrip s = dropWhile is_space s"

definition py_rstrip :: "string \<Rightarrow> string" where
  "py_rstrip s = rev (dropWhile is_space (rev s))"

text \<open>\<open>s.strip()\<close>\<close>

definition py_strip :: "string \<Rightarrow> string" where
  "py_strip s = py_rstrip (py_lstrip s)"

text \<open>
  \<open>s.replace(old, new)\<close> where \<open>old\<close> is a single character, which is the only way
  the program calls it: every occurrence of the character becomes \<open>new\<close>.
\<close>

definition replace_char :: "char \<Rightarrow> string \<Rightarrow> string \<Rightarrow> string" where
  "replace_char old new s = concat (map (\<lambda>c. if c = old then new else [c]) s)"

text \<open>The string without the characters listed in \<open>cs\<close>.\<close>

definition remove_chars :: "char list \<Rightarrow> string \<Rightarrow> string" where
  "remove_chars cs s = filter (\<lambda>c. c \<notin> set cs) s"

section \<open>Python floats\<close>

text \<open>
  A Python \<open>float\<close> is modelled by its exact value: a rational number, one of the two
  infinities, or not-a-number. Rounding to binary64 is not modelled, so a literal such
  as \<open>1e999\<close>, which Python reads as \<open>inf\<close>, is the finite number it denotes here.
\<close>

datatype pyfloat = Fin rat | PInf | NInf | FNaN

definition digit_val :: "char \<Rightarrow> int" where
  "digit_val c = of_char c - 48"

definition digits_val :: "string \<Rightarrow> int" where
  "digits_val ds = foldl (\<lambda>n c. 10 * n + digit_val c) 0 ds"

definition lower_ascii :: "char \<Rightarrow> char" where
  "lower_ascii c =
     (let n = (of_char c :: nat) in if 65 \<le> n \<and> n \<le> 90 then char_of (n + 32) else c)"

text \<open>
  Underscores in a numeric literal are accepted only between two digits; \<open>prev\<close> is the
  character read before, initially the null character.
\<close>

fun underscores_ok :: "char \<Rightarrow> string \<Rightarrow> bool" where
  "underscores_ok prev [] = (prev \<noteq> CHR ''_'')"
| "underscores_ok prev (c # s) =
     ((if c = CHR ''_'' then is_ascii_digit prev
       else (prev = CHR ''_'' \<longrightarrow> is_ascii_digit c))
      \<and> underscores_ok c s)"

definition is_c_space :: "char \<Rightarrow> bool" where
  "is_c_space c = (c \<in> set [CHR 0x09, CHR 0x0A, CHR 0x0B, CHR 0x0C, CHR 0x0D, CHR 0x20])"

definition c_strip :: "string \<Rightarrow> string" where
  "c_strip s = rev (dropWhile is_c_space (rev (dropWhile is_c_space s)))"

definition pow10 :: "int \<Rightarrow> rat" where
  "pow10 e = (if 0 \<le> e then 10 ^ nat e else 1 / 10 ^ nat (- e))"

text \<open>The exponent part: empty, or \<open>e\<close> or \<open>E\<close>, an optional sign and at least one digit.\<close>

definition parse_exponent :: "string \<Rightarrow> int option" where
  "parse_exponent s =
     (case s of
        [] \<Rightarrow> Some 0
      | c # r \<Rightarrow>
          if c = CHR ''e'' \<or> c = CHR ''E'' then
            (let (neg, ds) = (case r of
                                [] \<Rightarrow> (False, r)
                              | d # r' \<Rightarrow> if d = CHR ''-'' then (True, r')
                                         else if d = CHR ''+'' then (False, r') else (False, r))
             in if ds \<noteq> [] \<and> list_all is_ascii_digit ds
                then Some (if neg then - digits_val ds else digits_val ds)
                else None)
          else None)"

text \<open>An unsigned decimal literal: digits, an optional point and digits, an optional exponent.\<close>

definition parse_decimal :: "string \<Rightarrow> rat option" where
  "parse_decimal s =
     (let ip = takeWhile is_ascii_digit s;
          r1 = dropWhile is_ascii_digit s;
          (fp, r2) = (case r1 of
                        [] \<Rightarrow> ([], r1)
                      | c # r \<Rightarrow> if c = CHR ''.''
                                 then (takeWhile is_ascii_digit r, dropWhile is_ascii_digit r)
                                 else ([], r1))
      in if ip = [] \<and> fp = [] then None
         else (case parse_exponent r2 of
                 None \<Rightarrow> None
               | Some e \<Rightarrow> Some (of_int (digits_val (ip @ fp)) * pow10 (e - int (length fp)))))"

definition parse_unsigned :: "string \<Rightarrow> pyfloat option" where
  "parse_unsigned s =
     (let l = map lower_ascii s
      in if l = ''inf'' \<or> l = ''infinity'' then Some PInf
         else if l = ''nan'' then Some FNaN
         else map_option Fin (parse_decimal s))"

definition fneg :: "pyfloat \<Rightarrow> pyfloat" where
  "fneg f = (case f of Fin q \<Rightarrow> Fin (- q) | PInf \<Rightarrow> NInf | NInf \<Rightarrow> PInf | FNaN \<Rightarrow> FNaN)"

text \<open>
  \<open>float(s)\<close> on a string; \<open>None\<close> is \<open>ValueError\<close>. The no-break space and the
  next-line character count as blanks, the underscores are checked and dropped, the
  blanks at both ends are skipped and the rest must be a signed literal.
\<close>

definition py_float :: "string \<Rightarrow> pyfloat option" where
  "py_float s =
     (let t = map (\<lambda>c. if c = CHR 0x85 \<or> c = CHR 0xA0 then CHR '' '' else c) s
      in if \<not> underscores_ok (CHR 0x00) t then None
         else
           (let u = c_strip (filter (\<lambda>c. c \<noteq> CHR ''_'') t)
            in case u of
                 [] \<Rightarrow> None
               | c # r \<Rightarrow>
                   if c = CHR ''-'' then map_option fneg (parse_unsigned r)
                   else if c = CHR ''+'' then parse_unsigned r
                   else parse_unsigned u))"

text \<open>\<open>f / 100\<close>\<close>

definition fdiv100 :: "pyfloat \<Rightarrow> pyfloat" where
  "fdiv100 f = (case f of Fin q \<Rightarrow> Fin (q / 100) | PInf \<Rightarrow> PInf | NInf \<Rightarrow> NInf | FNaN \<Rightarrow> FNaN)"

text \<open>\<open>-1 < f < 1\<close>\<close>

definition small_fraction :: "pyfloat \<Rightarrow> bool" where
  "small_fraction f = (case f of Fin q \<Rightarrow> - 1 < q \<and> q < 1 | _ \<Rightarrow> False)"

section \<open>Cells, timestamps and the library\<close>

text \<open>
  A cell of a data frame read from a CSV file holds a string, an integer, a float or a
  boolean; the missing value is the float not-a-number.
\<close>

datatype cell = Str string | Intg int | Flt pyfloat | Bool bool

text \<open>\<open>pd.isna(value)\<close> on a cell\<close>

definition isna :: "cell \<Rightarrow> bool" where
  "isna v = (v = Flt FNaN)"

record timestamp =
  year :: int
  month :: int
  day :: int
  hour :: int
  minute :: int
  second :: int
  microsecond :: int

datatype exn = ValueError | TypeError | OtherError

text \<open>
  The functions of Python and pandas that the program calls and that are not modelled
  here are parameters of the model:
  \<^item> \<open>float_repr\<close>: \<open>str\<close> of a float;
  \<^item> \<open>to_datetime\<close>: \<open>pd.to_datetime(s, errors='coerce')\<close> on one string, \<open>None\<close> when
    the result is \<open>NaT\<close> or the call raises \<open>ValueError\<close> or \<open>TypeError\<close>;
  \<^item> \<open>to_numeric_strict\<close>: whether \<open>pd.to_numeric(column, errors='raise')\<close> returns
    rather than raising \<open>ValueError\<close> or \<open>TypeError\<close>;
  \<^item> \<open>to_numeric_coerce\<close>: \<open>pd.to_numeric(column, errors='coerce')\<close>;
  \<^item> \<open>to_datetime_coerce\<close>: \<open>pd.to_datetime(column, errors='coerce',
    infer_datetime_format=True)\<close>, \<open>None\<close> for \<open>NaT\<close>.
\<close>

record pylib =
  float_repr :: "pyfloat \<Rightarrow> string"
  to_datetime :: "string \<Rightarrow> timestamp option"
  to_numeric_strict :: "cell list \<Rightarrow> bool"
  to_numeric_coerce :: "cell list \<Rightarrow> exn + pyfloat list"
  to_datetime_coerce :: "cell list \<Rightarrow> exn + timestamp option list"

text \<open>The decimal digits of a number that is not negative.\<close>

function digits_repr :: "int \<Rightarrow> string" where
  "digits_repr n =
     (if n < 10 then [char_of (48 + n)] else digits_repr (n div 10) @ [char_of (48 + n mod 10)])"
  by pat_completeness auto
termination
  by (relation "measure nat") auto

declare digits_repr.simps [simp del]

definition int_repr :: "int \<Rightarrow> string" where
  "int_repr i = (if i < 0 then CHR ''-'' # digits_repr (- i) else digits_repr i)"

text \<open>\<open>str(value)\<close>\<close>

definition py_str :: "pylib \<Rightarrow> cell \<Rightarrow> string" where
  "py_str L v =
     (case v of
        Str s \<Rightarrow> s
      | Intg i \<Rightarrow> int_repr i
      | Flt f \<Rightarrow> float_repr L f
      | Bool b \<Rightarrow> (if b then ''True'' else ''False''))"

section \<open>The value cleaners\<close>

definition clean_currency_and_numbers :: "pylib \<Rightarrow> cell \<Rightarrow> cell" where
  "clean_currency_and_numbers L v =
     (if isna v then v
      else
        (let value_str = py_strip (py_str L v);
             cleaned = py_strip (replace_char CHR '','' [] (replace_char CHR ''$'' [] value_str))
         in case py_float cleaned of
              Some float_val \<Rightarrow> Str cleaned
            | None \<Rightarrow> v))"

definition clean_percentage :: "pylib \<Rightarrow> cell \<Rightarrow> cell" where
  "clean_percentage L v =
     (if isna v then v
      else
        (let value_str = py_strip (py_str L v)
         in if CHR ''%'' \<in> set value_str then
              (let cleaned = py_strip (replace_char CHR '','' [] (replace_char CHR ''%'' [] value_str))
               in case py_float cleaned of
                    Some f \<Rightarrow> Flt (fdiv100 f)
                  | None \<Rightarrow> Str cleaned)
            else v))"

subsection \<open>The date detector\<close>

text \<open>\<open>s.lower()\<close> on code points below 256\<close>

definition lower_char :: "char \<Rightarrow> char" where
  "lower_char c =
     (let n = (of_char c :: nat)
      in if (65 \<le> n \<and> n \<le> 90) \<or> (192 \<le> n \<and> n \<le> 222 \<and> n \<noteq> 215)
         then char_of (n + 32) else c)"

definition py_lower :: "string \<Rightarrow> string" where
  "py_lower s = map lower_char s"

fun starts_with :: "string \<Rightarrow> string \<Rightarrow> bool" where
  "starts_with s [] = True"
| "starts_with [] (p # ps) = False"
| "starts_with (c # s) (p # ps) = (c = p \<and> starts_with s ps)"

text \<open>\<open>sub in s\<close>\<close>

fun contains :: "string \<Rightarrow> string \<Rightarrow> bool" where
  "contains [] sub = (sub = [])"
| "contains (c # s) sub = (starts_with (c # s) sub \<or> contains s sub)"

text \<open>\<open>s.endswith(suffix)\<close>\<close>

definition ends_with :: "string \<Rightarrow> string \<Rightarrow> bool" where
  "ends_with s suffix = starts_with (rev s) (rev suffix)"

text \<open>\<open>s.isdigit()\<close>\<close>

definition py_isdigit :: "string \<Rightarrow> bool" where
  "py_isdigit s =
     (s \<noteq> [] \<and> list_all (\<lambda>c. is_ascii_digit c \<or> c \<in> set [CHR 0xB2, CHR 0xB3, CHR 0xB9]) s)"

text \<open>\<open>re.search(r'\d{1,2}:\d{2}', s)\<close> finds a match: a digit, a colon and two digits.\<close>

fun has_time_pattern :: "string \<Rightarrow> bool" where
  "has_time_pattern (a # b # c # d # s) =
     ((is_ascii_digit a \<and> b = CHR '':'' \<and> is_ascii_digit c \<and> is_ascii_digit d)
      \<or> has_time_pattern (b # c # d # s))"
| "has_time_pattern s = False"

text \<open>A number in at least \<open>w\<close> digits, filled with zeros on the left.\<close>

definition pad :: "nat \<Rightarrow> int \<Rightarrow> string" where
  "pad w n = replicate (w - length (digits_repr n)) CHR ''0'' @ digits_repr n"

text \<open>\<open>strftime("%Y-%m-%d")\<close>\<close>

definition format_date :: "timestamp \<Rightarrow> string" where
  "format_date t = pad 4 (year t) @ ''-'' @ pad 2 (month t) @ ''-'' @ pad 2 (day t)"

text \<open>\<open>strftime("%Y-%m-%d %H:%M:%S")\<close>\<close>

definition format_datetime :: "timestamp \<Rightarrow> string" where
  "format_datetime t =
     format_date t @ '' '' @ pad 2 (hour t) @ '':'' @ pad 2 (minute t) @ '':'' @ pad 2 (second t)"

definition rstrip_char :: "char \<Rightarrow> string \<Rightarrow> string" where
  "rstrip_char c s = rev (dropWhile (\<lambda>x. x = c) (rev s))"

text \<open>\<open>strftime("%Y-%m-%d %H:%M:%S.%f").rstrip('0').rstrip('.')\<close>\<close>

definition format_datetime_micro :: "timestamp \<Rightarrow> string" where
  "format_datetime_micro t =
     rstrip_char CHR ''.'' (rstrip_char CHR ''0'' (format_datetime t @ ''.'' @ pad 6 (microsecond t)))"

definition skip_terms :: "string list" where
  "skip_terms = [''pct'', ''percent'', ''rate'']"

definition date_keywords :: "string list" where
  "date_keywords =
     [''date'', ''time'', ''timestamp'', ''datetime'',
      ''created'', ''updated'', ''modified'', ''deleted'',
      ''start'', ''end'', ''due'', ''expire'', ''birth'', ''dob'']"

definition date_suffixes :: "string list" where
  "date_suffixes = [''_at'', ''_on'']"

definition is_date_column :: "string \<Rightarrow> bool" where
  "is_date_column column_name =
     (list_ex (\<lambda>keyword. contains (py_lower column_name) keyword) date_keywords
      \<or> list_ex (\<lambda>suffix. ends_with (py_lower column_name) suffix) date_suffixes)"

definition detect_and_clean_dates :: "pylib \<Rightarrow> cell \<Rightarrow> string \<Rightarrow> cell" where
  "detect_and_clean_dates L v column_name =
     (if isna v \<or> py_strip (py_str L v) = [] then v
      else
        (let value_str = py_strip (py_str L v)
         in if list_ex (\<lambda>term. contains (py_lower column_name) term) skip_terms then v
            else if (case py_float value_str of
                       Some float_val \<Rightarrow> small_fraction float_val \<and> CHR ''.'' \<in> set value_str
                     | None \<Rightarrow> False) then v
            else if py_isdigit value_str \<and> length value_str = 8 \<and> \<not> is_date_column column_name
            then v
            else
              (let has_time_in_original = has_time_pattern value_str
               in case to_datetime L value_str of
                    None \<Rightarrow> v
                  | Some parsed_date \<Rightarrow>
                      if has_time_in_original then
                        (if microsecond parsed_date > 0
                         then Str (format_datetime_micro parsed_date)
                         else Str (format_datetime parsed_date))
                      else Str (format_date parsed_date))))"

section \<open>Column headers\<close>

text \<open>
  \<open>clean_column_headers\<close> rewrites every column label with the same chain of
  seventeen string operations; \<open>clean_header\<close> is that chain on one label.
\<close>

definition clean_header :: "string \<Rightarrow> string" where
  "clean_header name =
     (let s = py_strip name;
          s = replace_char CHR '' '' ''_'' s;
          s = replace_char CHR ''-'' ''_'' s;
          s = replace_char CHR ''#'' ''Num'' s;
          s = replace_char CHR ''$'' ''Dol'' s;
          s = replace_char CHR ''%'' ''pct'' s;
          s = replace_char CHR ''/'' [] s;
          s = replace_char CHR ''@'' [] s;
          s = replace_char CHR ''*'' [] s;
          s = replace_char CHR ''^'' [] s;
          s = replace_char CHR ''&'' [] s;
          s = replace_char CHR ''('' [] s;
          s = replace_char CHR '')'' [] s;
          s = replace_char CHR ''{'' [] s;
          s = replace_char CHR ''}'' [] s;
          s = replace_char CHR ''['' [] s;
          s = replace_char CHR '']'' [] s
      in s)"

definition clean_column_headers :: "string list \<Rightarrow> string list" where
  "clean_column_headers names = map clean_header names"

text \<open>
  The four phases in which the specification describes the normalisation, each as one
  pass over the label.
\<close>

definition separators_to_underscore :: "string \<Rightarrow> string" where
  "separators_to_underscore s = map (\<lambda>c. if c = CHR '' '' \<or> c = CHR ''-'' then CHR ''_'' else c) s"

definition symbol_word :: "char \<Rightarrow> string" where
  "symbol_word c =
     (if c = CHR ''#'' then ''Num'' else if c = CHR ''$'' then ''Dol''
      else if c = CHR ''%'' then ''pct'' else [c])"

definition symbols_to_words :: "string \<Rightarrow> string" where
  "symbols_to_words s = concat (map symbol_word s)"

definition deleted_chars :: "char list" where
  "deleted_chars = ''/@*^&(){}[]''"

definition delete_special :: "string \<Rightarrow> string" where
  "delete_special s = filter (\<lambda>c. c \<notin> set deleted_chars) s"

definition normalize_header_phases :: "string \<Rightarrow> string" where
  "normalize_header_phases name =
     delete_special (symbols_to_words (separators_to_underscore (py_strip name)))"

section \<open>The cleaning pipeline\<close>

text \<open>
  A data frame is the list of its columns, each a label and the cells of the column
  from the first row to the last; all columns of a data frame have the same number of
  cells. \<open>len(df)\<close> is the number of rows.
\<close>

type_synonym column = "string \<times> cell list"
type_synonym table = "column list"

definition n_rows :: "table \<Rightarrow> nat" where
  "n_rows df = (case df of [] \<Rightarrow> 0 | c # _ \<Rightarrow> length (snd c))"

text \<open>\<open>x.strip() if isinstance(x, str) else x\<close>\<close>

definition strip_cell :: "cell \<Rightarrow> cell" where
  "strip_cell x = (case x of Str s \<Rightarrow> Str (py_strip s) | _ \<Rightarrow> x)"

text \<open>
  The body of the loop over the columns in \<open>clean_csv_files\<close>, on a column with a
  label that no other column has: the currency cleaner and the percentage cleaner on
  every cell, the test whether the column converts to numbers, and the date detector
  on every cell when it does not.
\<close>

definition clean_column :: "pylib \<Rightarrow> string \<Rightarrow> cell list \<Rightarrow> cell list" where
  "clean_column L col cells =
     (let c1 = map (clean_currency_and_numbers L) cells;
          c2 = map (clean_percentage L) c1;
          is_numeric_column = to_numeric_strict L c2
      in if \<not> is_numeric_column then map (\<lambda>x. detect_and_clean_dates L x col) c2 else c2)"

text \<open>
  The cleaning steps of \<open>clean_csv_files\<close> on one data frame: the headers, the blanks
  around every string, then the columns one by one. When two columns have the same
  label after the headers are cleaned, \<open>df[col]\<close> is a data frame and not a column, the
  currency cleaner is called on a whole column and its test \<open>if pd.isna(value)\<close> raises
  \<open>ValueError\<close>, which ends the processing of the file; a data frame with no rows has
  no cell to call it on.
\<close>

definition clean_table :: "pylib \<Rightarrow> table \<Rightarrow> exn + table" where
  "clean_table L df =
     (let names = clean_column_headers (map fst df);
          stripped = map (\<lambda>c. map strip_cell (snd c)) df
      in if distinct names \<or> n_rows df = 0
         then Inr (map (\<lambda>(col, cells). (col, clean_column L col cells)) (zip names stripped))
         else Inl ValueError)"

text \<open>
  A cell is missing when it is null or when its text is empty or blank: the test at
  the head of the date detector.
\<close>

definition missing :: "pylib \<Rightarrow> cell \<Rightarrow> bool" where
  "missing L v = (isna v \<or> py_strip (py_str L v) = [])"

subsection \<open>Conditions on a data frame\<close>

text \<open>No cell of the data frame has the character in its text.\<close>

definition no_symbol :: "char \<Rightarrow> pylib \<Rightarrow> table \<Rightarrow> bool" where
  "no_symbol ch L df = (\<forall>c \<in> set df. \<forall>v \<in> set (snd c). ch \<notin> set (py_str L v))"

text \<open>The only blanks in the labels are spaces.\<close>

definition plain_headers :: "table \<Rightarrow> bool" where
  "plain_headers df = (\<forall>c \<in> set df. \<forall>ch \<in> set (fst c). is_space ch \<longrightarrow> ch = CHR '' '')"

text \<open>The text that the date detector writes for a timestamp.\<close>

definition render :: "bool \<Rightarrow> timestamp \<Rightarrow> string" where
  "render with_time t =
     (if with_time then
        (if microsecond t > 0 then format_datetime_micro t else format_datetime t)
      else format_date t)"

text \<open>
  The shape of the texts that the date detector writes: digits at both ends, and
  between them only digits, hyphens, colons, spaces and points.
\<close>

definition date_chars :: "char list" where
  "date_chars = ''0123456789-: .''"

definition date_text :: "string \<Rightarrow> bool" where
  "date_text r =
     (r \<noteq> [] \<and> is_ascii_digit (hd r) \<and> is_ascii_digit (last r)
      \<and> list_all (\<lambda>c. c \<in> set date_chars) r)"

definition valid_timestamp :: "timestamp \<Rightarrow> bool" where
  "valid_timestamp t =
     (0 \<le> year t \<and> 0 \<le> month t \<and> 0 \<le> day t \<and> 0 \<le> hour t \<and> 0 \<le> minute t
      \<and> 0 \<le> second t \<and> 0 \<le> microsecond t)"

text \<open>
  The text of a cell is not an ambiguous date: when the date parser reads it, the
  timestamp has no negative field, and when the parser reads the text that the date
  detector writes for the timestamp, the detector writes that text again.
\<close>

definition unambiguous :: "pylib \<Rightarrow> cell \<Rightarrow> bool" where
  "unambiguous L x =
     (let value_str = py_strip (py_str L x)
      in case to_datetime L value_str of
           None \<Rightarrow> True
         | Some t \<Rightarrow>
             valid_timestamp t
             \<and> (let r = render (has_time_pattern value_str) t
                in case to_datetime L r of
                     None \<Rightarrow> True
                   | Some t' \<Rightarrow> render (has_time_pattern r) t' = r))"

text \<open>No cell, as it reaches the date detector, is an ambiguous date.\<close>

definition no_ambiguous_dates :: "pylib \<Rightarrow> table \<Rightarrow> bool" where
  "no_ambiguous_dates L df =
     (\<forall>c \<in> set df. \<forall>v \<in> set (snd c).
        unambiguous L (clean_percentage L (clean_currency_and_numbers L (strip_cell v))))"

section \<open>The audit\<close>

datatype warning =
    RowCountMismatch nat nat
  | ColumnCountMismatch nat nat
  | NullCountChanged string nat nat
  | MeanChanged string
  | MinChanged string
  | MaxChanged string
  | SumChanged string
  | DateCountChanged string nat nat
  | MinDateChanged string
  | MaxDateChanged string
  | NonNullCountChanged string nat nat
  | UniqueCountChanged string nat nat
  | AuditError string exn

text \<open>
  The state of \<open>audit_dataframe\<close>: the warnings written to the log so far and the
  flag \<open>audit_passed\<close>.
\<close>

record audit_state =
  log :: "warning list"
  audit_passed :: bool

text \<open>A warning is written and the flag is cleared.\<close>

definition warn :: "warning \<Rightarrow> audit_state \<Rightarrow> audit_state" where
  "warn w st = st\<lparr>log := log st @ [w], audit_passed := False\<rparr>"

definition warn_if :: "bool \<Rightarrow> warning \<Rightarrow> audit_state \<Rightarrow> audit_state" where
  "warn_if b w st = (if b then warn w st else st)"

subsection \<open>Float arithmetic and the aggregates of a numeric column\<close>

definition not_nan :: "pyfloat \<Rightarrow> bool" where
  "not_nan f = (f \<noteq> FNaN)"

definition fadd :: "pyfloat \<Rightarrow> pyfloat \<Rightarrow> pyfloat" where
  "fadd a b =
     (case (a, b) of
        (FNaN, _) \<Rightarrow> FNaN
      | (_, FNaN) \<Rightarrow> FNaN
      | (Fin x, Fin y) \<Rightarrow> Fin (x + y)
      | (PInf, NInf) \<Rightarrow> FNaN
      | (NInf, PInf) \<Rightarrow> FNaN
      | (PInf, _) \<Rightarrow> PInf
      | (_, PInf) \<Rightarrow> PInf
      | (NInf, _) \<Rightarrow> NInf
      | (_, NInf) \<Rightarrow> NInf)"

definition fsub :: "pyfloat \<Rightarrow> pyfloat \<Rightarrow> pyfloat" where
  "fsub a b = fadd a (fneg b)"

text \<open>\<open>a < b\<close> on floats; false when one of them is not-a-number.\<close>

definition fless :: "pyfloat \<Rightarrow> pyfloat \<Rightarrow> bool" where
  "fless a b =
     (case (a, b) of
        (FNaN, _) \<Rightarrow> False
      | (_, FNaN) \<Rightarrow> False
      | (Fin x, Fin y) \<Rightarrow> x < y
      | (NInf, NInf) \<Rightarrow> False
      | (NInf, _) \<Rightarrow> True
      | (_, NInf) \<Rightarrow> False
      | (PInf, _) \<Rightarrow> False
      | (_, PInf) \<Rightarrow> True)"

text \<open>\<open>abs(a - b) > tolerance\<close> with \<open>tolerance = 0.01\<close>\<close>

definition exceeds_tolerance :: "pyfloat \<Rightarrow> pyfloat \<Rightarrow> bool" where
  "exceeds_tolerance a b =
     (case fsub a b of
        Fin d \<Rightarrow> \<bar>d\<bar> > 1 / 100
      | PInf \<Rightarrow> True
      | NInf \<Rightarrow> True
      | FNaN \<Rightarrow> False)"

text \<open>The aggregates of pandas skip the entries that are not-a-number.\<close>

definition series_sum :: "pyfloat list \<Rightarrow> pyfloat" where
  "series_sum xs = foldl fadd (Fin 0) (filter not_nan xs)"

definition series_mean :: "pyfloat list \<Rightarrow> pyfloat" where
  "series_mean xs =
     (let ys = filter not_nan xs
      in if ys = [] then FNaN
         else (case series_sum xs of
                 Fin t \<Rightarrow> Fin (t / of_nat (length ys))
               | other \<Rightarrow> other))"

definition series_min :: "pyfloat list \<Rightarrow> pyfloat" where
  "series_min xs =
     (case filter not_nan xs of
        [] \<Rightarrow> FNaN
      | y # ys \<Rightarrow> foldl (\<lambda>a b. if fless b a then b else a) y ys)"

definition series_max :: "pyfloat list \<Rightarrow> pyfloat" where
  "series_max xs =
     (case filter not_nan xs of
        [] \<Rightarrow> FNaN
      | y # ys \<Rightarrow> foldl (\<lambda>a b. if fless a b then b else a) y ys)"

subsection \<open>Dates\<close>

definition ts_key :: "timestamp \<Rightarrow> int \<times> int \<times> int \<times> int \<times> int \<times> int \<times> int" where
  "ts_key t = (year t, month t, day t, hour t, minute t, second t, microsecond t)"

text \<open>\<open>t.date()\<close>\<close>

definition date_of :: "timestamp \<Rightarrow> int \<times> int \<times> int" where
  "date_of t = (year t, month t, day t)"

text \<open>The earliest and the latest of the timestamps of a column, \<open>NaT\<close> skipped.\<close>

definition dates_min :: "timestamp option list \<Rightarrow> timestamp option" where
  "dates_min ds =
     (case List.map_filter id ds of
        [] \<Rightarrow> None
      | t # ts \<Rightarrow> Some (foldl (\<lambda>a b. if ts_key b < ts_key a then b else a) t ts))"

definition dates_max :: "timestamp option list \<Rightarrow> timestamp option" where
  "dates_max ds =
     (case List.map_filter id ds of
        [] \<Rightarrow> None
      | t # ts \<Rightarrow> Some (foldl (\<lambda>a b. if ts_key a < ts_key b then b else a) t ts))"

subsection \<open>Counts of a column\<close>

definition count_na :: "cell list \<Rightarrow> nat" where
  "count_na cells = length (filter isna cells)"

definition count_notna :: "cell list \<Rightarrow> nat" where
  "count_notna cells = length (filter (\<lambda>v. \<not> isna v) cells)"

text \<open>
  Two cells are the same value for \<open>nunique\<close> when Python finds them equal: a string
  only equals the same string, and an integer, a float and a boolean are compared as
  numbers.
\<close>

definition cell_key :: "cell \<Rightarrow> string + pyfloat" where
  "cell_key v =
     (case v of
        Str s \<Rightarrow> Inl s
      | Intg i \<Rightarrow> Inr (Fin (of_int i))
      | Flt f \<Rightarrow> Inr f
      | Bool b \<Rightarrow> Inr (Fin (if b then 1 else 0)))"

definition nunique :: "cell list \<Rightarrow> nat" where
  "nunique cells = length (remdups (map cell_key (filter (\<lambda>v. \<not> isna v) cells)))"

text \<open>\<open>count / total > 0.8\<close>, decided on the exact quotient.\<close>

definition above_threshold :: "nat \<Rightarrow> nat \<Rightarrow> bool" where
  "above_threshold k n = (n \<noteq> 0 \<and> 5 * int k > 4 * int n)"

subsection \<open>The checks on one pair of columns\<close>

text \<open>\<open>df[col]\<close>: the columns of the data frame that carry the label.\<close>

definition lookup :: "table \<Rightarrow> string \<Rightarrow> cell list list" where
  "lookup df col = map snd (filter (\<lambda>c. fst c = col) df)"

text \<open>The comparisons of a column that is taken as numeric.\<close>

definition numeric_checks :: "string \<Rightarrow> pyfloat list \<Rightarrow> pyfloat list \<Rightarrow> audit_state \<Rightarrow> audit_state" where
  "numeric_checks clean_col orig_numeric clean_numeric st =
     (let st = warn_if (exceeds_tolerance (series_mean orig_numeric) (series_mean clean_numeric))
                 (MeanChanged clean_col) st;
          st = warn_if (exceeds_tolerance (series_min orig_numeric) (series_min clean_numeric))
                 (MinChanged clean_col) st;
          st = warn_if (exceeds_tolerance (series_max orig_numeric) (series_max clean_numeric))
                 (MaxChanged clean_col) st;
          st = warn_if (exceeds_tolerance (series_sum orig_numeric) (series_sum clean_numeric))
                 (SumChanged clean_col) st
      in st)"

text \<open>The comparisons of a column that is taken as dates.\<close>

definition date_checks ::
  "string \<Rightarrow> timestamp option list \<Rightarrow> timestamp option list \<Rightarrow> audit_state \<Rightarrow> audit_state" where
  "date_checks clean_col orig_dates clean_dates st =
     (let orig_date_count = length (List.map_filter id orig_dates);
          clean_date_count = length (List.map_filter id clean_dates);
          st = warn_if (orig_date_count \<noteq> clean_date_count)
                 (DateCountChanged clean_col orig_date_count clean_date_count) st
      in if orig_date_count > 0 \<and> clean_date_count > 0 then
           (let st = warn_if (map_option date_of (dates_min orig_dates)
                                \<noteq> map_option date_of (dates_min clean_dates))
                       (MinDateChanged clean_col) st;
                st = warn_if (map_option date_of (dates_max orig_dates)
                                \<noteq> map_option date_of (dates_max clean_dates))
                       (MaxDateChanged clean_col) st
            in st)
         else st)"

text \<open>The comparisons of a column that is taken as text.\<close>

definition text_checks :: "string \<Rightarrow> cell list \<Rightarrow> cell list \<Rightarrow> audit_state \<Rightarrow> audit_state" where
  "text_checks clean_col orig_series clean_series st =
     (let orig_unique = nunique orig_series;
          clean_unique = nunique clean_series;
          orig_count = count_notna orig_series;
          clean_count = count_notna clean_series;
          st = warn_if (orig_count \<noteq> clean_count)
                 (NonNullCountChanged clean_col orig_count clean_count) st;
          st = warn_if (orig_unique \<noteq> clean_unique)
                 (UniqueCountChanged clean_col orig_unique clean_unique) st
      in st)"

text \<open>
  The first inner \<open>try\<close>: both columns are converted to numbers, and the original is
  numeric when more than 0.8 of its entries are numbers. An exception of a conversion
  is swallowed by \<open>except: pass\<close> and the column is not numeric.
\<close>

definition numeric_branch :: "pylib \<Rightarrow> cell list \<Rightarrow> cell list \<Rightarrow> (pyfloat list \<times> pyfloat list) option" where
  "numeric_branch L orig_series clean_series =
     (case to_numeric_coerce L orig_series of
        Inl e \<Rightarrow> None
      | Inr orig_numeric \<Rightarrow>
          (case to_numeric_coerce L clean_series of
             Inl e \<Rightarrow> None
           | Inr clean_numeric \<Rightarrow>
               if above_threshold (length (filter not_nan orig_numeric)) (length orig_numeric)
               then Some (orig_numeric, clean_numeric) else None))"

text \<open>The second inner \<open>try\<close>, for dates, in the same way.\<close>

definition date_branch ::
  "pylib \<Rightarrow> cell list \<Rightarrow> cell list \<Rightarrow> (timestamp option list \<times> timestamp option list) option" where
  "date_branch L orig_series clean_series =
     (case to_datetime_coerce L orig_series of
        Inl e \<Rightarrow> None
      | Inr orig_dates \<Rightarrow>
          (case to_datetime_coerce L clean_series of
             Inl e \<Rightarrow> None
           | Inr clean_dates \<Rightarrow>
               if above_threshold (length (List.map_filter id orig_dates)) (length orig_dates)
               then Some (orig_dates, clean_dates) else None))"

text \<open>
  The body of the outer \<open>try\<close> for one pair of labels. The result is the state reached
  and the exception that ended the body, if one did. When one of the two labels is
  carried by several columns of its data frame, the null counts are not two numbers
  and the test \<open>if orig_nulls != clean_nulls\<close> raises \<open>ValueError\<close>.
\<close>

definition audit_column_body ::
  "pylib \<Rightarrow> table \<Rightarrow> table \<Rightarrow> string \<times> string \<Rightarrow> audit_state \<Rightarrow> audit_state \<times> exn option" where
  "audit_column_body L df_original df_cleaned p st =
     (let orig_col = fst p; clean_col = snd p
      in case (lookup df_original orig_col, lookup df_cleaned clean_col) of
           ([orig_series], [clean_series]) \<Rightarrow>
             (let orig_nulls = count_na orig_series;
                  clean_nulls = count_na clean_series;
                  st = warn_if (orig_nulls \<noteq> clean_nulls)
                         (NullCountChanged clean_col orig_nulls clean_nulls) st
              in case numeric_branch L orig_series clean_series of
                   Some (orig_numeric, clean_numeric) \<Rightarrow>
                     (numeric_checks clean_col orig_numeric clean_numeric st, None)
                 | None \<Rightarrow>
                     (case date_branch L orig_series clean_series of
                        Some (orig_dates, clean_dates) \<Rightarrow>
                          (date_checks clean_col orig_dates clean_dates st, None)
                      | None \<Rightarrow> (text_checks clean_col orig_series clean_series st, None)))
         | _ \<Rightarrow> (st, Some ValueError))"

text \<open>One turn of the loop over the pairs of labels: the body and its handler.\<close>

definition audit_column ::
  "pylib \<Rightarrow> table \<Rightarrow> table \<Rightarrow> audit_state \<Rightarrow> string \<times> string \<Rightarrow> audit_state" where
  "audit_column L df_original df_cleaned st p =
     (case audit_column_body L df_original df_cleaned p st of
        (st', None) \<Rightarrow> st'
      | (st', Some e) \<Rightarrow> warn (AuditError (snd p) e) st')"

text \<open>The two checks before the loop.\<close>

definition audit_counts :: "table \<Rightarrow> table \<Rightarrow> audit_state" where
  "audit_counts df_original df_cleaned =
     (let st = \<lparr>log = [], audit_passed = True\<rparr>;
          st = warn_if (n_rows df_original \<noteq> n_rows df_cleaned)
                 (RowCountMismatch (n_rows df_original) (n_rows df_cleaned)) st;
          st = warn_if (length df_original \<noteq> length df_cleaned)
                 (ColumnCountMismatch (length df_original) (length df_cleaned)) st
      in st)"

definition audit_dataframe :: "pylib \<Rightarrow> table \<Rightarrow> table \<Rightarrow> audit_state" where
  "audit_dataframe L df_original df_cleaned =
     foldl (audit_column L df_original df_cleaned)
       (audit_counts df_original df_cleaned)
       (zip (map fst df_original) (map fst df_cleaned))"



text \<open>
  What one turn of the loop adds to the log: the turn from the empty log.
\<close>

definition column_warnings :: "pylib \<Rightarrow> table \<Rightarrow> table \<Rightarrow> string \<times> string \<Rightarrow> warning list" where
  "column_warnings L df_original df_cleaned p =
     log (audit_column L df_original df_cleaned \<lparr>log = [], audit_passed = True\<rparr> p)"





subsection \<open>The classification as the specification words it\<close>




section \<open>A small library\<close>

text \<open>
  An instance of the library parameters on which the model can be run: floats are
  printed in plain decimal notation with at most seventeen digits after the point, a
  date is read only in the form \<open>YYYY-MM-DD\<close>, and a column converts to numbers cell by
  cell, a string when \<open>float\<close> reads it or when it is empty.
\<close>

function frac_digits :: "nat \<Rightarrow> rat \<Rightarrow> string" where
  "frac_digits n r =
     (if n = 0 \<or> r = 0 then []
      else char_of (48 + \<lfloor>r * 10\<rfloor>) # frac_digits (n - 1) (r * 10 - of_int \<lfloor>r * 10\<rfloor>))"
  by pat_completeness auto
termination
  by (relation "measure fst") auto

declare frac_digits.simps [simp del]

definition plain_float_repr :: "pyfloat \<Rightarrow> string" where
  "plain_float_repr f =
     (case f of
        FNaN \<Rightarrow> ''nan''
      | PInf \<Rightarrow> ''inf''
      | NInf \<Rightarrow> ''-inf''
      | Fin q \<Rightarrow>
          (let a = \<bar>q\<bar>; ip = \<lfloor>a\<rfloor>; fr = a - of_int ip
           in (if q < 0 then ''-'' else []) @ digits_repr ip @ ''.''
              @ (if fr = 0 then ''0'' else frac_digits 17 fr)))"

definition iso_date :: "string \<Rightarrow> timestamp option" where
  "iso_date s =
     (case s of
        [y1, y2, y3, y4, a, m1, m2, b, d1, d2] \<Rightarrow>
          if a = CHR ''-'' \<and> b = CHR ''-'' \<and> list_all is_ascii_digit [y1, y2, y3, y4, m1, m2, d1, d2]
          then Some \<lparr>year = digits_val [y1, y2, y3, y4], month = digits_val [m1, m2],
                     day = digits_val [d1, d2], hour = 0, minute = 0, second = 0, microsecond = 0\<rparr>
          else None
      | _ \<Rightarrow> None)"

definition cell_number :: "cell \<Rightarrow> pyfloat option" where
  "cell_number v =
     (case v of
        Str s \<Rightarrow> (if s = [] then Some FNaN else py_float s)
      | Intg i \<Rightarrow> Some (Fin (of_int i))
      | Flt f \<Rightarrow> Some f
      | Bool b \<Rightarrow> Some (Fin (if b then 1 else 0)))"

definition cell_date :: "cell \<Rightarrow> timestamp option" where
  "cell_date v = (case v of Str s \<Rightarrow> iso_date s | _ \<Rightarrow> None)"

definition small_lib :: pylib where
  "small_lib =
     \<lparr>float_repr = plain_float_repr,
      to_datetime = iso_date,
      to_numeric_strict = (\<lambda>cells. list_all (\<lambda>v. cell_number v \<noteq> None) cells),
      to_numeric_coerce = (\<lambda>cells. Inr (map (\<lambda>v. case cell_number v of Some f \<Rightarrow> f | None \<Rightarrow> FNaN) cells)),
      to_datetime_coerce = (\<lambda>cells. Inr (map cell_date cells))\<rparr>"


section \<open>Properties of the header normaliser\<close>

lemma replace_char_Nil [simp]: "replace_char old new [] = []"
  by (simp add: replace_char_def)

lemma replace_char_Cons [simp]:
  "replace_char old new (c # s) = (if c = old then new else [c]) @ replace_char old new s"
  by (simp add: replace_char_def)

lemma replace_char_append [simp]:
  "replace_char old new (s @ t) = replace_char old new s @ replace_char old new t"
  by (simp add: replace_char_def)

lemma replace_char_absent: "old \<notin> set s \<Longrightarrow> replace_char old new s = s"
  by (induction s) auto

lemma replace_char_delete: "replace_char old [] s = filter (\<lambda>c. c \<noteq> old) s"
  by (induction s) auto

lemma separators_chain:
  "replace_char CHR ''-'' ''_'' (replace_char CHR '' '' ''_'' s) = separators_to_underscore s"
  by (induction s) (auto simp: separators_to_underscore_def)

lemma symbols_chain:
  "replace_char CHR ''%'' ''pct'' (replace_char CHR ''$'' ''Dol'' (replace_char CHR ''#'' ''Num'' s))
     = symbols_to_words s"
  by (induction s) (auto simp: symbols_to_words_def symbol_word_def)

lemma delete_chain:
  "replace_char CHR '']'' [] (replace_char CHR ''['' [] (replace_char CHR ''}'' []
     (replace_char CHR ''{'' [] (replace_char CHR '')'' [] (replace_char CHR ''('' []
     (replace_char CHR ''&'' [] (replace_char CHR ''^'' [] (replace_char CHR ''*'' []
     (replace_char CHR ''@'' [] (replace_char CHR ''/'' [] s))))))))))
     = delete_special s"
  by (induction s) (auto simp: delete_special_def deleted_chars_def)

lemma clean_header_phases: "clean_header name = normalize_header_phases name"
  by (simp add: clean_header_def normalize_header_phases_def Let_def
      separators_chain symbols_chain delete_chain)


text \<open>
  C7. Every column label is normalised in four phases, in this order: the blanks at
  both ends are trimmed; space and hyphen become an underscore; \<open>#\<close>, \<open>$\<close> and \<open>%\<close>
  become \<open>Num\<close>, \<open>Dol\<close> and \<open>pct\<close>; the characters \<open>/ @ * ^ & ( ) { } [ ]\<close> are deleted.
  So \<open>Revenue (%)\<close> becomes \<open>Revenue_pct\<close>, \<open>Item/Code#\<close> becomes \<open>ItemCodeNum\<close>, and
  \<open>A (%)\<close> becomes \<open>A_pct\<close>, the space having become an underscore in the second phase.
\<close>

theorem header_normalisation_order:
  "clean_column_headers names =
     map (\<lambda>name. delete_special (symbols_to_words (separators_to_underscore (py_strip name)))) names
   \<and> clean_header ''Revenue (%)'' = ''Revenue_pct''
   \<and> clean_header ''Item/Code#'' = ''ItemCodeNum''
   \<and> clean_header ''A (%)'' = ''A_pct''"
proof -
  have "clean_column_headers names =
      map (\<lambda>name. delete_special (symbols_to_words (separators_to_underscore (py_strip name)))) names"
    by (simp add: clean_column_headers_def clean_header_phases normalize_header_phases_def)
  moreover have "clean_header ''Revenue (%)'' = ''Revenue_pct''" by code_simp
  moreover have "clean_header ''Item/Code#'' = ''ItemCodeNum''" by code_simp
  moreover have "clean_header ''A (%)'' = ''A_pct''" by code_simp
  ultimately show ?thesis by simp
qed

text \<open>
  The label \<open>A (%)\<close> is not normalised to \<open>A pct\<close>, as the specification has it in its
  example.
\<close>

theorem header_example_counterexample:
  "clean_header ''A (%)'' \<noteq> ''A pct''"
  by code_simp

section \<open>Properties of trimming\<close>

lemma rstrip_Cons:
  "py_rstrip (a # s) =
     (if list_all is_space s then (if is_space a then [] else [a]) else a # py_rstrip s)"
  by (auto simp: py_rstrip_def dropWhile_append list_all_iff)

lemma rstrip_Nil [simp]: "py_rstrip [] = []"
  by (simp add: py_rstrip_def)

lemma lstrip_Nil [simp]: "py_lstrip [] = []"
  by (simp add: py_lstrip_def)

lemma strip_Nil [simp]: "py_strip [] = []"
  by (simp add: py_strip_def)

lemma rstrip_all_space: "list_all is_space s \<Longrightarrow> py_rstrip s = []"
  by (simp add: py_rstrip_def list_all_iff)

lemma strip_commute: "py_lstrip (py_rstrip s) = py_rstrip (py_lstrip s)"
proof (induction s)
  case Nil
  show ?case by simp
next
  case (Cons a s)
  show ?case
  proof (cases "is_space a")
    case True
    have "py_lstrip (py_rstrip (a # s)) = py_lstrip (py_rstrip s)"
      using True by (simp add: rstrip_Cons rstrip_all_space) (simp add: py_lstrip_def)
    also have "\<dots> = py_rstrip (py_lstrip s)" by (rule Cons.IH)
    also have "\<dots> = py_rstrip (py_lstrip (a # s))"
      using True by (simp add: py_lstrip_def)
    finally show ?thesis .
  next
    case False
    then show ?thesis
      by (auto simp: py_lstrip_def rstrip_Cons)
  qed
qed

lemma lstrip_filter:
  assumes "\<And>x. is_space x \<Longrightarrow> p x"
  shows "py_lstrip (filter p (py_lstrip s)) = py_lstrip (filter p s)"
  by (induction s) (auto simp: py_lstrip_def assms)

lemma rstrip_filter:
  assumes "\<And>x. is_space x \<Longrightarrow> p x"
  shows "py_rstrip (filter p (py_rstrip s)) = py_rstrip (filter p s)"
proof -
  have "py_lstrip (filter p (py_lstrip (rev s))) = py_lstrip (filter p (rev s))"
    by (rule lstrip_filter) (rule assms)
  then show ?thesis
    by (simp add: py_rstrip_def py_lstrip_def rev_filter)
qed

text \<open>Trimming before characters that are not blanks are removed changes nothing.\<close>

lemma strip_filter:
  assumes "\<And>x. is_space x \<Longrightarrow> p x"
  shows "py_strip (filter p (py_strip s)) = py_strip (filter p s)"
proof -
  have "py_strip (filter p (py_strip s))
      = py_lstrip (py_rstrip (filter p (py_rstrip (py_lstrip s))))"
    by (simp add: py_strip_def strip_commute)
  also have "\<dots> = py_lstrip (py_rstrip (filter p (py_lstrip s)))"
    by (simp add: rstrip_filter assms)
  also have "\<dots> = py_rstrip (py_lstrip (filter p (py_lstrip s)))"
    by (simp add: strip_commute)
  also have "\<dots> = py_rstrip (py_lstrip (filter p s))"
    by (simp add: lstrip_filter assms)
  finally show ?thesis by (simp add: py_strip_def)
qed

lemma remove_two: "replace_char b [] (replace_char a [] s) = remove_chars [a, b] s"
  by (simp add: replace_char_delete remove_chars_def)

lemma symbols_not_space:
  "\<not> is_space CHR ''$''" "\<not> is_space CHR '',''" "\<not> is_space CHR ''%''"
  by (simp_all add: is_space_def whitespace_chars_def)

lemma cleaned_eq:
  assumes "\<not> is_space a" "\<not> is_space b"
  shows "py_strip (replace_char b [] (replace_char a [] (py_strip s)))
       = py_strip (remove_chars [a, b] s)"
  unfolding remove_two remove_chars_def
  by (rule strip_filter) (use assms in auto)

section \<open>The currency cleaner\<close>

text \<open>
  C5. For a cell that is present, the currency cleaner takes the text of the cell
  without its \<open>$\<close> and \<open>,\<close> characters and without the blanks at its ends. When \<open>float\<close>
  reads that text, the cleaner returns it as a string, digit for digit; when it does
  not, the cleaner returns the cell as it was.
\<close>

theorem currency_cleaner_cases:
  assumes "\<not> missing L v"
  shows "(py_float (py_strip (remove_chars ''$,'' (py_str L v))) \<noteq> None \<longrightarrow>
           clean_currency_and_numbers L v = Str (py_strip (remove_chars ''$,'' (py_str L v))))
       \<and> (py_float (py_strip (remove_chars ''$,'' (py_str L v))) = None \<longrightarrow>
           clean_currency_and_numbers L v = v)"
  using assms
  by (auto simp: clean_currency_and_numbers_def missing_def Let_def cleaned_eq symbols_not_space)

theorem currency_cleaner_cases_witness:
  "\<not> missing small_lib (Str ''$1,200.50'')
   \<and> clean_currency_and_numbers small_lib (Str ''$1,200.50'') = Str ''1200.50''
   \<and> \<not> missing small_lib (Str ''N/A$'')
   \<and> clean_currency_and_numbers small_lib (Str ''N/A$'') = Str ''N/A$''"
proof -
  have p1: "\<not> missing small_lib (Str ''$1,200.50'')" by code_simp
  have p2: "\<not> missing small_lib (Str ''N/A$'')" by code_simp
  have e1: "py_strip (remove_chars ''$,'' (py_str small_lib (Str ''$1,200.50''))) = ''1200.50''"
    by code_simp
  have f1: "py_float ''1200.50'' \<noteq> None" by code_simp
  have f2: "py_float (py_strip (remove_chars ''$,'' (py_str small_lib (Str ''N/A$'')))) = None"
    by code_simp
  show ?thesis
    using p1 p2 currency_cleaner_cases [OF p1] currency_cleaner_cases [OF p2] e1 f1 f2
    by simp
qed

section \<open>The date detector\<close>

text \<open>The tests \<open>sub in s\<close> and \<open>s.endswith(suffix)\<close> of the model are the ones of Python.\<close>

lemma starts_with_iff: "starts_with s p \<longleftrightarrow> (\<exists>b. s = p @ b)"
  by (induction s p rule: starts_with.induct) auto

lemma contains_iff: "contains s sub \<longleftrightarrow> (\<exists>a b. s = a @ sub @ b)"
proof (induction s)
  case Nil
  show ?case by auto
next
  case (Cons c s)
  show ?case
  proof
    assume "contains (c # s) sub"
    then consider "starts_with (c # s) sub" | "contains s sub" by auto
    then show "\<exists>a b. c # s = a @ sub @ b"
    proof cases
      case 1
      then obtain b where "c # s = sub @ b" by (auto simp: starts_with_iff)
      then have "c # s = [] @ sub @ b" by simp
      then show ?thesis by blast
    next
      case 2
      then obtain a b where "s = a @ sub @ b" using Cons.IH by blast
      then have "c # s = (c # a) @ sub @ b" by simp
      then show ?thesis by blast
    qed
  next
    assume "\<exists>a b. c # s = a @ sub @ b"
    then obtain a b where ab: "c # s = a @ sub @ b" by blast
    show "contains (c # s) sub"
    proof (cases a)
      case Nil
      with ab have "starts_with (c # s) sub" by (auto simp: starts_with_iff)
      then show ?thesis by simp
    next
      case (Cons x a')
      with ab have "s = a' @ sub @ b" by simp
      then have "contains s sub" using Cons.IH by blast
      then show ?thesis by simp
    qed
  qed
qed

lemma ends_with_iff: "ends_with s suffix \<longleftrightarrow> (\<exists>a. s = a @ suffix)"
proof -
  have "ends_with s suffix \<longleftrightarrow> (\<exists>b. rev s = rev suffix @ b)"
    by (simp add: ends_with_def starts_with_iff)
  also have "\<dots> \<longleftrightarrow> (\<exists>a. s = a @ suffix)"
  proof
    assume "\<exists>b. rev s = rev suffix @ b"
    then obtain b where "rev s = rev suffix @ b" by blast
    then have "s = rev b @ suffix" by (metis rev_append rev_rev_ident)
    then show "\<exists>a. s = a @ suffix" by blast
  next
    assume "\<exists>a. s = a @ suffix"
    then obtain a where "s = a @ suffix" by blast
    then have "rev s = rev suffix @ rev a" by simp
    then show "\<exists>b. rev s = rev suffix @ b" by blast
  qed
  finally show ?thesis .
qed

text \<open>
  C6. For a cell that is present, the date detector returns the cell unchanged
  whenever one of its skip rules holds: the lowered column name contains \<open>pct\<close>,
  \<open>percent\<close> or \<open>rate\<close>; the text is read by \<open>float\<close> as a number strictly between -1
  and 1 and contains a point; the text is eight digits and the column name neither
  contains one of the fourteen date keywords nor ends in \<open>_at\<close> or \<open>_on\<close>; or the date
  parser does not read the text.
\<close>

theorem date_skip_rules:
  assumes "\<not> missing L v"
  shows "(list_ex (\<lambda>term. contains (py_lower column_name) term) [''pct'', ''percent'', ''rate'']
          \<or> (\<exists>f. py_float (py_strip (py_str L v)) = Some f \<and> small_fraction f
                  \<and> CHR ''.'' \<in> set (py_strip (py_str L v)))
          \<or> (py_isdigit (py_strip (py_str L v)) \<and> length (py_strip (py_str L v)) = 8
              \<and> \<not> (list_ex (\<lambda>keyword. contains (py_lower column_name) keyword)
                        [''date'', ''time'', ''timestamp'', ''datetime'', ''created'', ''updated'',
                         ''modified'', ''deleted'', ''start'', ''end'', ''due'', ''expire'',
                         ''birth'', ''dob'']
                      \<or> list_ex (\<lambda>suffix. ends_with (py_lower column_name) suffix) [''_at'', ''_on'']))
          \<or> to_datetime L (py_strip (py_str L v)) = None)
         \<longrightarrow> detect_and_clean_dates L v column_name = v"
  using assms
  by (auto simp: detect_and_clean_dates_def missing_def Let_def skip_terms_def is_date_column_def
      date_keywords_def date_suffixes_def split: option.splits)

text \<open>The value \<open>20240115\<close> in the column \<open>id\<close> is returned unchanged.\<close>

theorem date_skip_rules_witness:
  "\<not> missing small_lib (Str ''20240115'')
   \<and> py_isdigit ''20240115'' \<and> length ''20240115'' = 8
   \<and> detect_and_clean_dates small_lib (Str ''20240115'') ''id'' = Str ''20240115''"
proof -
  have p: "\<not> missing small_lib (Str ''20240115'')" by code_simp
  have s: "py_strip (py_str small_lib (Str ''20240115'')) = ''20240115''" by code_simp
  have d: "py_isdigit ''20240115''" by code_simp
  have n: "\<not> (list_ex (\<lambda>keyword. contains (py_lower ''id'') keyword)
                        [''date'', ''time'', ''timestamp'', ''datetime'', ''created'', ''updated'',
                         ''modified'', ''deleted'', ''start'', ''end'', ''due'', ''expire'',
                         ''birth'', ''dob'']
                      \<or> list_ex (\<lambda>suffix. ends_with (py_lower ''id'') suffix) [''_at'', ''_on''])"
    by code_simp
  show ?thesis
    using p d n date_skip_rules [OF p, of "''id''"] unfolding s
    by simp
qed

section \<open>The percentage cleaner\<close>

text \<open>
  C3. When the text contains \<open>%\<close> and what is left of it is not a number, the
  percentage cleaner returns the text without its \<open>%\<close> characters and also without its
  commas and the blanks at its ends: \<open>10%, 20%\<close> becomes \<open>10 20\<close> and \<open>a,b%\<close> becomes \<open>ab\<close>.
  The comment at that branch of the program says that only the \<open>%\<close> sign is removed.
  A number is divided by 100 (\<open>25%\<close> gives 0.25) and \<open>abc%\<close> gives \<open>abc\<close>.
\<close>

theorem percentage_fallback_deletes_commas:
  "clean_percentage small_lib (Str ''10%, 20%'') = Str ''10 20''
   \<and> clean_percentage small_lib (Str ''a,b%'') = Str ''ab''
   \<and> clean_percentage small_lib (Str ''25%'') = Flt (Fin (1 / 4))
   \<and> clean_percentage small_lib (Str ''abc%'') = Str ''abc''"
  by code_simp

section \<open>Missing and present cells\<close>

text \<open>
  C1. Cleaning can make a present cell missing: the cell \<open>%\<close> leaves the percentage
  cleaner as the empty string, and the cell \<open>nan%\<close> leaves it as the float
  not-a-number, which is the null value.
\<close>

theorem percentage_makes_present_cells_missing:
  "\<not> missing small_lib (Str ''%'')
   \<and> clean_percentage small_lib (clean_currency_and_numbers small_lib (strip_cell (Str ''%''))) = Str []
   \<and> missing small_lib (Str [])
   \<and> \<not> missing small_lib (Str ''nan%'')
   \<and> clean_percentage small_lib (clean_currency_and_numbers small_lib (strip_cell (Str ''nan%''))) = Flt FNaN
   \<and> missing small_lib (Flt FNaN)
   \<and> clean_table small_lib [(''x'', [Str ''%'', Str ''nan%''])] = Inr [(''x'', [Str [], Flt FNaN])]"
  by code_simp

section \<open>The numeric gate of the pipeline\<close>



section \<open>The audit loop\<close>

lemma warn_if_log: "log (warn_if b w st) = log st @ (if b then [w] else [])"
  by (simp add: warn_if_def warn_def)


lemma warn_if_more: "audit_state.more (warn_if b w st) = audit_state.more st"
  by (simp add: warn_if_def warn_def)

lemma numeric_checks_log:
  "log (numeric_checks c xs ys st) = log st @ log (numeric_checks c xs ys \<lparr>log = [], audit_passed = True\<rparr>)"
  by (simp add: numeric_checks_def Let_def warn_if_log)


lemma date_checks_log:
  "log (date_checks c xs ys st) = log st @ log (date_checks c xs ys \<lparr>log = [], audit_passed = True\<rparr>)"
  by (simp add: date_checks_def Let_def warn_if_log)


lemma text_checks_log:
  "log (text_checks c xs ys st) = log st @ log (text_checks c xs ys \<lparr>log = [], audit_passed = True\<rparr>)"
  by (simp add: text_checks_def Let_def warn_if_log)



lemma body_single:
  assumes "lookup df_original (fst p) = [os]" and "lookup df_cleaned (snd p) = [cs]"
  shows "audit_column_body L df_original df_cleaned p st =
     (let st = warn_if (count_na os \<noteq> count_na cs)
                 (NullCountChanged (snd p) (count_na os) (count_na cs)) st
      in case numeric_branch L os cs of
           Some (orig_numeric, clean_numeric) \<Rightarrow>
             (numeric_checks (snd p) orig_numeric clean_numeric st, None)
         | None \<Rightarrow>
             (case date_branch L os cs of
                Some (orig_dates, clean_dates) \<Rightarrow>
                  (date_checks (snd p) orig_dates clean_dates st, None)
              | None \<Rightarrow> (text_checks (snd p) os cs st, None)))"
  using assms by (simp add: audit_column_body_def Let_def)

lemma body_not_single:
  assumes "\<not> (\<exists>os cs. lookup df_original (fst p) = [os] \<and> lookup df_cleaned (snd p) = [cs])"
  shows "audit_column_body L df_original df_cleaned p st = (st, Some ValueError)"
  using assms
  by (auto simp: audit_column_body_def Let_def split: list.splits)

lemma audit_column_log:
  "log (audit_column L df_original df_cleaned st p)
     = log st @ column_warnings L df_original df_cleaned p"
proof (cases "\<exists>os cs. lookup df_original (fst p) = [os] \<and> lookup df_cleaned (snd p) = [cs]")
  case True
  then obtain os cs where l: "lookup df_original (fst p) = [os]" "lookup df_cleaned (snd p) = [cs]"
    by blast
  show ?thesis
    unfolding column_warnings_def audit_column_def body_single [OF l] Let_def
    by (simp split: option.splits prod.splits
        add: numeric_checks_log [of _ _ _ "warn_if _ _ _"] date_checks_log [of _ _ _ "warn_if _ _ _"]
             text_checks_log [of _ _ _ "warn_if _ _ _"] warn_if_log)
next
  case False
  show ?thesis
    unfolding column_warnings_def audit_column_def body_not_single [OF False]
    by (simp add: warn_def)
qed


lemma audit_loop_log:
  "log (foldl (audit_column L df_original df_cleaned) st ps)
     = log st @ concat (map (column_warnings L df_original df_cleaned) ps)"
  by (induction ps arbitrary: st) (simp_all add: audit_column_log)





section \<open>The pairs and the roles of the audit\<close>

lemma lookup_append: "lookup (xs @ ys) col = lookup xs col @ lookup ys col"
  by (simp add: lookup_def)

lemma lookup_absent: "col \<notin> set (map fst df) \<Longrightarrow> lookup df col = []"
  by (induction df) (auto simp: lookup_def)

lemma lookup_take:
  assumes "col \<notin> set (map fst (drop m df))"
  shows "lookup df col = lookup (take m df) col"
proof -
  have "lookup df col = lookup (take m df @ drop m df) col" by simp
  also have "\<dots> = lookup (take m df) col @ lookup (drop m df) col" by (rule lookup_append)
  also have "\<dots> = lookup (take m df) col" using assms by (simp add: lookup_absent)
  finally show ?thesis .
qed

lemma column_warnings_cong:
  assumes "lookup df_original (fst p) = lookup df_original' (fst p)"
    and "lookup df_cleaned (snd p) = lookup df_cleaned' (snd p)"
  shows "column_warnings L df_original df_cleaned p = column_warnings L df_original' df_cleaned' p"
  unfolding column_warnings_def audit_column_def audit_column_body_def Let_def assms
  by (rule refl)

lemma zip_take_min: "zip xs ys = zip (take (min (length xs) (length ys)) xs) (take (min (length xs) (length ys)) ys)"
proof -
  have "zip xs ys = take (min (length xs) (length ys)) (zip xs ys)" by simp
  then show ?thesis by (simp only: take_zip)
qed

text \<open>
  C10. When the two data frames have different numbers of columns, the warning of the
  column counts is in the log, and the pairs that the loop checks are the first
  \<open>m\<close> labels of each, \<open>m\<close> the smaller of the two numbers. When no label of these first
  \<open>m\<close> columns is also the label of a later column of the same data frame, the log is
  the one of the count checks followed by the warnings of the audit of the two data
  frames cut to their first \<open>m\<close> columns: the later columns add nothing.
\<close>

theorem audit_checks_common_prefix:
  assumes "length df_original \<noteq> length df_cleaned"
    and "m = min (length df_original) (length df_cleaned)"
    and "\<forall>col \<in> set (map fst (take m df_original)). col \<notin> set (map fst (drop m df_original))"
    and "\<forall>col \<in> set (map fst (take m df_cleaned)). col \<notin> set (map fst (drop m df_cleaned))"
  shows "ColumnCountMismatch (length df_original) (length df_cleaned)
           \<in> set (log (audit_dataframe L df_original df_cleaned))
       \<and> log (audit_dataframe L df_original df_cleaned)
           = log (audit_counts df_original df_cleaned)
             @ concat (map (column_warnings L (take m df_original) (take m df_cleaned))
                         (zip (map fst (take m df_original)) (map fst (take m df_cleaned))))"
proof -
  let ?ps = "zip (map fst (take m df_original)) (map fst (take m df_cleaned))"
  have z: "zip (map fst df_original) (map fst df_cleaned) = ?ps"
    using zip_take_min [of "map fst df_original" "map fst df_cleaned"] assms(2)
    by (simp add: take_map)
  have same: "column_warnings L df_original df_cleaned p
            = column_warnings L (take m df_original) (take m df_cleaned) p" if "p \<in> set ?ps" for p
  proof (rule column_warnings_cong)
    from that have "fst p \<in> set (map fst (take m df_original))"
      by (metis in_set_zipE prod.collapse)
    with assms(3) show "lookup df_original (fst p) = lookup (take m df_original) (fst p)"
      by (intro lookup_take) blast
    from that have "snd p \<in> set (map fst (take m df_cleaned))"
      by (metis in_set_zipE prod.collapse)
    with assms(4) show "lookup df_cleaned (snd p) = lookup (take m df_cleaned) (snd p)"
      by (intro lookup_take) blast
  qed
  have "log (audit_dataframe L df_original df_cleaned)
      = log (audit_counts df_original df_cleaned)
        @ concat (map (column_warnings L df_original df_cleaned) ?ps)"
    by (simp add: audit_dataframe_def audit_loop_log z)
  also have "map (column_warnings L df_original df_cleaned) ?ps
           = map (column_warnings L (take m df_original) (take m df_cleaned)) ?ps"
    using same by simp
  finally have l: "log (audit_dataframe L df_original df_cleaned)
      = log (audit_counts df_original df_cleaned)
        @ concat (map (column_warnings L (take m df_original) (take m df_cleaned)) ?ps)" .
  have "ColumnCountMismatch (length df_original) (length df_cleaned)
          \<in> set (log (audit_counts df_original df_cleaned))"
    using assms(1) by (simp add: audit_counts_def Let_def warn_if_log)
  with l show ?thesis by simp
qed

text \<open>
  The second column of the original has no partner and no check.
\<close>

theorem audit_checks_common_prefix_witness:
  "length [(''a'', [Str ''x'']), (''b'', [Str ''y''])] \<noteq> length [(''a'', [Str ''x''])]
   \<and> log (audit_dataframe small_lib [(''a'', [Str ''x'']), (''b'', [Str ''y''])] [(''a'', [Str ''x''])])
       = [ColumnCountMismatch 2 1]"
proof -
  let ?o = "[(''a'', [Str ''x'']), (''b'', [Str ''y''])]"
  let ?c = "[(''a'', [Str ''x''])]"
  have h1: "length ?o \<noteq> length ?c" by simp
  have h2: "(1::nat) = min (length ?o) (length ?c)" by simp
  have h3: "\<forall>col \<in> set (map fst (take 1 ?o)). col \<notin> set (map fst (drop 1 ?o))" by simp
  have h4: "\<forall>col \<in> set (map fst (take 1 ?c)). col \<notin> set (map fst (drop 1 ?c))" by simp
  have c: "log (audit_counts ?o ?c) = [ColumnCountMismatch 2 1]" by code_simp
  have w: "column_warnings small_lib (take 1 ?o) (take 1 ?c) (''a'', ''a'') = []" by code_simp
  from audit_checks_common_prefix [OF h1 h2 h3 h4, of small_lib] c w h1
  show ?thesis by simp
qed

text \<open>
  A column beyond the common prefix that repeats a label of the prefix does add a
  warning: with it, \<open>df_cleaned['a']\<close> is two columns and the check of the pair raises;
  without it the audit is silent.
\<close>

theorem audit_extra_column_counterexample:
  "length [(''a'', [Str ''x''])] \<noteq> length [(''a'', [Str ''x'']), (''a'', [Str ''y''])]
   \<and> log (audit_dataframe small_lib [(''a'', [Str ''x''])] [(''a'', [Str ''x'']), (''a'', [Str ''y''])])
       = [ColumnCountMismatch 1 2, AuditError ''a'' ValueError]
   \<and> log (audit_dataframe small_lib [(''a'', [Str ''x''])] [(''a'', [Str ''x''])]) = []"
  by code_simp











section \<open>The texts that the date detector writes\<close>



lemma digit_char_all:
  "list_all (\<lambda>n. char_of (48 + n) \<in> set ascii_digits) [0, 1, 2, 3, 4, 5, 6, 7, 8, 9 :: int]"
  by code_simp

lemma digit_char: "0 \<le> n \<Longrightarrow> n < 10 \<Longrightarrow> char_of (48 + n) \<in> set ascii_digits" for n :: int
proof -
  assume "0 \<le> n" "n < 10"
  then have "n \<in> set [0, 1, 2, 3, 4, 5, 6, 7, 8, 9 :: int]"
    by simp arith
  with digit_char_all show ?thesis
    unfolding list_all_iff by blast
qed

lemma digits_repr_digits: "0 \<le> n \<Longrightarrow> set (digits_repr n) \<subseteq> set ascii_digits"
proof (induction n rule: digits_repr.induct)
  case (1 n)
  show ?case
  proof (cases "n < 10")
    case True
    with 1 show ?thesis by (subst digits_repr.simps) (simp add: digit_char)
  next
    case False
    with 1 have "set (digits_repr (n div 10)) \<subseteq> set ascii_digits" by simp
    moreover have "char_of (48 + n mod 10) \<in> set ascii_digits"
      by (rule digit_char) simp_all
    ultimately show ?thesis using False
      by (subst digits_repr.simps) simp
  qed
qed

lemma digits_repr_nonempty: "digits_repr n \<noteq> []"
  by (subst digits_repr.simps) simp

lemma pad_digits: "0 \<le> n \<Longrightarrow> set (pad w n) \<subseteq> set ascii_digits"
  using digits_repr_digits [of n] by (auto simp: pad_def ascii_digits_def)

lemma pad_nonempty: "pad w n \<noteq> []"
  by (simp add: pad_def digits_repr_nonempty)

lemma pad_hd: "0 \<le> n \<Longrightarrow> is_ascii_digit (hd (pad w n))"
  using pad_digits [of n w] pad_nonempty [of w n]
  by (metis hd_in_set is_ascii_digit_def subsetD)

lemma pad_last: "0 \<le> n \<Longrightarrow> is_ascii_digit (last (pad w n))"
  using pad_digits [of n w] pad_nonempty [of w n]
  by (metis last_in_set is_ascii_digit_def subsetD)

lemma digit_is_date_char: "c \<in> set ascii_digits \<Longrightarrow> c \<in> set date_chars"
  by (auto simp: ascii_digits_def date_chars_def)

lemma pad_date_chars: "0 \<le> n \<Longrightarrow> list_all (\<lambda>c. c \<in> set date_chars) (pad w n)"
  using pad_digits [of n w] by (auto simp: list_all_iff intro: digit_is_date_char)

lemma sep_date_chars:
  "CHR ''-'' \<in> set date_chars" "CHR '' '' \<in> set date_chars" "CHR '':'' \<in> set date_chars"
  "CHR ''.'' \<in> set date_chars"
  by (simp_all add: date_chars_def)

lemma date_text_format_date:
  assumes "valid_timestamp t"
  shows "date_text (format_date t)"
proof -
  from assms have y: "0 \<le> year t" and m: "0 \<le> month t" and d: "0 \<le> day t"
    by (simp_all add: valid_timestamp_def)
  have "list_all (\<lambda>c. c \<in> set date_chars) (format_date t)"
    by (simp add: format_date_def pad_date_chars y m d sep_date_chars)
  moreover have "is_ascii_digit (hd (format_date t))"
    using pad_hd [OF y, of 4] pad_nonempty [of 4 "year t"] by (simp add: format_date_def)
  moreover have "is_ascii_digit (last (format_date t))"
    using pad_last [OF d, of 2] pad_nonempty [of 2 "day t"] by (simp add: format_date_def)
  ultimately show ?thesis
    by (simp add: date_text_def format_date_def)
qed

lemma date_text_format_datetime:
  assumes "valid_timestamp t"
  shows "date_text (format_datetime t)"
proof -
  from assms have h: "0 \<le> hour t" and m: "0 \<le> minute t" and s: "0 \<le> second t"
    by (simp_all add: valid_timestamp_def)
  from date_text_format_date [OF assms]
  have d: "format_date t \<noteq> []" "is_ascii_digit (hd (format_date t))"
      "list_all (\<lambda>c. c \<in> set date_chars) (format_date t)"
    by (simp_all add: date_text_def)
  have "list_all (\<lambda>c. c \<in> set date_chars) (format_datetime t)"
    by (simp add: format_datetime_def pad_date_chars h m s sep_date_chars d(3))
  moreover have "is_ascii_digit (hd (format_datetime t))"
    using d(1,2) by (simp add: format_datetime_def)
  moreover have "is_ascii_digit (last (format_datetime t))"
    using pad_last [OF s, of 2] pad_nonempty [of 2 "second t"] by (simp add: format_datetime_def)
  ultimately show ?thesis
    using d(1) by (simp add: date_text_def format_datetime_def)
qed

lemma rstrip_char_keep:
  assumes "a \<noteq> []" and "last a \<noteq> c"
  shows "rstrip_char c (a @ b) = a @ rstrip_char c b"
proof -
  from assms have "hd (rev a) \<noteq> c" "rev a \<noteq> []"
    by (simp_all add: hd_rev)
  then have ra: "dropWhile (\<lambda>x. x = c) (rev a) = rev a"
    by (cases "rev a") auto
  have "dropWhile (\<lambda>x. x = c) (rev b @ rev a) = dropWhile (\<lambda>x. x = c) (rev b) @ rev a"
    by (simp add: dropWhile_append ra)
  then show ?thesis by (simp add: rstrip_char_def)
qed

lemma rstrip_char_subset: "set (rstrip_char c s) \<subseteq> set s"
  by (auto simp: rstrip_char_def dest: set_dropWhileD)

lemma rstrip_char_last:
  assumes "rstrip_char c s \<noteq> []"
  shows "last (rstrip_char c s) \<noteq> c"
proof -
  from assms have n: "dropWhile (\<lambda>x. x = c) (rev s) \<noteq> []" by (simp add: rstrip_char_def)
  then have "hd (dropWhile (\<lambda>x. x = c) (rev s)) \<noteq> c" by (rule hd_dropWhile)
  with n show ?thesis by (simp add: rstrip_char_def last_rev)
qed

lemma date_text_format_datetime_micro:
  assumes "valid_timestamp t"
  shows "date_text (format_datetime_micro t)"
proof -
  define d where "d = format_datetime t"
  define u where "u = pad 6 (microsecond t)"
  define u' where "u' = rstrip_char CHR ''0'' u"
  define tail where "tail = rstrip_char CHR ''.'' (CHR ''.'' # u')"
  from date_text_format_datetime [OF assms]
  have d: "d \<noteq> []" "is_ascii_digit (hd d)" "is_ascii_digit (last d)"
      "list_all (\<lambda>c. c \<in> set date_chars) d"
    by (simp_all add: date_text_def d_def)
  from assms have "0 \<le> microsecond t" by (simp add: valid_timestamp_def)
  then have u: "set u \<subseteq> set ascii_digits" unfolding u_def by (rule pad_digits)
  have "rstrip_char CHR ''0'' ((d @ ''.'') @ u) = (d @ ''.'') @ u'"
    unfolding u'_def by (rule rstrip_char_keep) simp_all
  then have e1: "rstrip_char CHR ''0'' (d @ ''.'' @ u) = d @ CHR ''.'' # u'" by simp
  have dl: "last d \<noteq> CHR ''.''"
    using d(3) by (auto simp: is_ascii_digit_def ascii_digits_def)
  have "rstrip_char CHR ''.'' (d @ CHR ''.'' # u') = d @ tail"
    unfolding tail_def by (rule rstrip_char_keep) (use d(1) dl in simp_all)
  then have e2: "format_datetime_micro t = d @ tail"
    unfolding format_datetime_micro_def d_def [symmetric] u_def [symmetric] e1 .
  have "set u' \<subseteq> set ascii_digits"
    unfolding u'_def using rstrip_char_subset [of "CHR ''0''" u] u by blast
  then have "set (CHR ''.'' # u') \<subseteq> insert CHR ''.'' (set ascii_digits)" by auto
  then have ts: "set tail \<subseteq> insert CHR ''.'' (set ascii_digits)"
    unfolding tail_def using rstrip_char_subset [of "CHR ''.''" "CHR ''.'' # u'"] by blast
  have "list_all (\<lambda>c. c \<in> set date_chars) tail"
    unfolding list_all_iff using ts sep_date_chars(4) digit_is_date_char by blast
  then have "list_all (\<lambda>c. c \<in> set date_chars) (format_datetime_micro t)"
    unfolding e2 using d(4) by simp
  moreover have "is_ascii_digit (hd (format_datetime_micro t))"
    unfolding e2 using d(1,2) by simp
  moreover have "is_ascii_digit (last (format_datetime_micro t))"
  proof (cases "tail = []")
    case True
    then show ?thesis unfolding e2 using d(3) by simp
  next
    case False
    then have "last tail \<noteq> CHR ''.''" unfolding tail_def by (rule rstrip_char_last)
    moreover have "last tail \<in> insert CHR ''.'' (set ascii_digits)"
      using False ts last_in_set by blast
    ultimately have "is_ascii_digit (last tail)" by (simp add: is_ascii_digit_def)
    with False show ?thesis unfolding e2 by simp
  qed
  ultimately show ?thesis
    unfolding e2 using d(1) by (simp add: date_text_def)
qed

lemma date_text_render: "valid_timestamp t \<Longrightarrow> date_text (render b t)"
  by (simp add: render_def date_text_format_date date_text_format_datetime
      date_text_format_datetime_micro)

section \<open>Cleaning a cleaned text\<close>

subsection \<open>Trimming once more\<close>

lemma strip_idem [simp]: "py_strip (py_strip s) = py_strip s"
  using strip_filter [of "\<lambda>_. True" s] by simp

lemma set_strip: "set (py_strip s) \<subseteq> set s"
  by (auto simp: py_strip_def py_rstrip_def py_lstrip_def dest!: set_dropWhileD)

lemma strip_cell_idem [simp]: "strip_cell (strip_cell v) = strip_cell v"
  by (cases v) (simp_all add: strip_cell_def)

lemma digit_not_space: "is_ascii_digit c \<Longrightarrow> \<not> is_space c"
  by (auto simp: is_ascii_digit_def ascii_digits_def is_space_def whitespace_chars_def)

lemma strip_unchanged:
  assumes "s \<noteq> []" and "\<not> is_space (hd s)" and "\<not> is_space (last s)"
  shows "py_strip s = s"
proof -
  from assms(1,2) have l: "py_lstrip s = s"
    by (cases s) (simp_all add: py_lstrip_def)
  from assms(1,3) have "rev s \<noteq> []" "\<not> is_space (hd (rev s))"
    by (simp_all add: hd_rev)
  then have "dropWhile is_space (rev s) = rev s"
    by (cases "rev s") simp_all
  then have "py_rstrip s = s" by (simp add: py_rstrip_def)
  with l show ?thesis by (simp add: py_strip_def)
qed

lemma date_text_strip: "date_text r \<Longrightarrow> py_strip r = r"
  by (rule strip_unchanged) (simp_all add: date_text_def digit_not_space)

lemma symbols_not_date_chars:
  "CHR ''$'' \<notin> set date_chars" "CHR '','' \<notin> set date_chars" "CHR ''%'' \<notin> set date_chars"
  by (simp_all add: date_chars_def)

lemma date_text_no_symbols:
  assumes "date_text r"
  shows "CHR ''$'' \<notin> set r" "CHR '','' \<notin> set r" "CHR ''%'' \<notin> set r"
  using assms symbols_not_date_chars unfolding date_text_def list_all_iff by blast+

lemma remove_chars_absent: "set cs \<inter> set s = {} \<Longrightarrow> remove_chars cs s = s"
  by (induction s) (auto simp: remove_chars_def)

subsection \<open>The cleaners on a text that the date detector wrote\<close>

lemma currency_keeps_date_text:
  assumes "date_text r"
  shows "clean_currency_and_numbers L (Str r) = Str r"
proof -
  have "py_strip (replace_char CHR '','' [] (replace_char CHR ''$'' [] (py_strip r)))
      = py_strip (remove_chars ''$,'' r)"
    by (rule cleaned_eq) (rule symbols_not_space)+
  also have "remove_chars ''$,'' r = r"
    by (rule remove_chars_absent) (use date_text_no_symbols [OF assms] in auto)
  finally have "py_strip (replace_char CHR '','' [] (replace_char CHR ''$'' [] (py_strip r))) = r"
    by (simp add: date_text_strip [OF assms])
  then show ?thesis
    by (simp add: clean_currency_and_numbers_def isna_def py_str_def Let_def split: option.splits)
qed

lemma percentage_unchanged:
  assumes "CHR ''%'' \<notin> set (py_str L x)"
  shows "clean_percentage L x = x"
  using assms set_strip [of "py_str L x"]
  by (auto simp: clean_percentage_def Let_def)

lemma pipeline_keeps_date_text:
  assumes "date_text r"
  shows "clean_percentage L (clean_currency_and_numbers L (strip_cell (Str r))) = Str r"
proof -
  have "strip_cell (Str r) = Str r"
    by (simp add: strip_cell_def date_text_strip [OF assms])
  moreover have "clean_percentage L (Str r) = Str r"
    by (rule percentage_unchanged) (simp add: py_str_def date_text_no_symbols [OF assms])
  ultimately show ?thesis
    by (simp add: currency_keeps_date_text [OF assms])
qed

lemma detect_cases:
  "detect_and_clean_dates L x col = x
   \<or> (\<exists>t. to_datetime L (py_strip (py_str L x)) = Some t
          \<and> detect_and_clean_dates L x col
              = Str (render (has_time_pattern (py_strip (py_str L x))) t))"
  by (auto simp: detect_and_clean_dates_def Let_def render_def split: option.splits)

lemma detect_date_text:
  assumes "date_text r"
    and "case to_datetime L r of None \<Rightarrow> True | Some t' \<Rightarrow> render (has_time_pattern r) t' = r"
  shows "detect_and_clean_dates L (Str r) col = Str r"
  using assms(2)
  by (auto simp: detect_and_clean_dates_def Let_def render_def py_str_def
      date_text_strip [OF assms(1)] split: option.splits)

end
